theory Spec2Isabelle
  imports Main
begin

section \<open>JavaScript values used by the image editor\<close>

text \<open>
  Strings are \<^typ>\<open>string\<close>; a character stands for one code unit below 256.
  An optional property (\<^verbatim>\<open>image?: string\<close>) is an \<^typ>\<open>'a option\<close>, with
  \<^term>\<open>None\<close> for \<^verbatim>\<open>undefined\<close>. A string is truthy when it is defined and not
  empty; \<^verbatim>\<open>a || b\<close> on an optional string and a string literal is \<open>or_else\<close>.
\<close>

definition truthy :: "string option \<Rightarrow> bool" where
  "truthy v = (case v of None \<Rightarrow> False | Some s \<Rightarrow> s \<noteq> [])"

definition or_else :: "string option \<Rightarrow> string \<Rightarrow> string" where
  "or_else v d = (case v of None \<Rightarrow> d | Some s \<Rightarrow> if s \<noteq> [] then s else d)"

definition startsWith :: "string \<Rightarrow> string \<Rightarrow> bool" where
  "startsWith s p = (take (length p) s = p)"

text \<open>
  \<^verbatim>\<open>String.prototype.trim\<close> removes white space and line terminators at both ends.
  Below 256 these are TAB, LF, VT, FF, CR, SPACE and NBSP.
\<close>

definition is_js_whitespace :: "char \<Rightarrow> bool" where
  "is_js_whitespace c =
     (c \<in> set [CHR 0x09, CHR 0x0A, CHR 0x0B, CHR 0x0C, CHR 0x0D, CHR 0x20, CHR 0xA0])"

definition trim :: "string \<Rightarrow> string" where
  "trim s = rev (dropWhile is_js_whitespace (rev (dropWhile is_js_whitespace s)))"

text \<open>
  A thrown value, as far as the catch clauses read it. JavaScript can throw any value:
  reading \<^verbatim>\<open>.message\<close> of \<^verbatim>\<open>undefined\<close> or \<^verbatim>\<open>null\<close> raises a TypeError;
  every other value has a \<^verbatim>\<open>message\<close> property, a string for an \<^verbatim>\<open>Error\<close> object
  and possibly undefined otherwise. A promise that settles is a sum: \<^term>\<open>Inl\<close> a
  rejection, \<^term>\<open>Inr\<close> the resolved value.
\<close>

datatype js_thrown =
    Thrown_undefined
  | Thrown_null
  | Thrown_value (message: "string option")

definition js_Error :: "string \<Rightarrow> js_thrown" where
  "js_Error m = Thrown_value (Some m)"

section \<open>types.ts\<close>

record EditResponse =
  success :: bool
  response_image :: "string option"
  response_error :: "string option"

datatype AppState = IDLE | PROCESSING | SUCCESS | ERROR

section \<open>services/geminiService.ts\<close>

subsection \<open>The request and the response of the SDK call\<close>

text \<open>
  The request parts built by the service are \<^verbatim>\<open>{text: prompt}\<close> and
  \<^verbatim>\<open>{inlineData: {mimeType, data}}\<close>.
\<close>

record ImageData =
  base64Data :: string
  mimeType :: string

datatype RequestPart =
    TextPart string
  | InlineDataPart (part_mimeType: string) (part_data: string)

record GenerateContentParameters =
  model :: string
  contents_parts :: "RequestPart list"

text \<open>
  The response, as far as the service reads it. Every property the service reads may be
  undefined at run time: the service guards \<^verbatim>\<open>candidates\<close>, \<^verbatim>\<open>inlineData\<close>,
  \<^verbatim>\<open>data\<close>, \<^verbatim>\<open>mimeType\<close> and \<^verbatim>\<open>text\<close>, and reads \<^verbatim>\<open>content\<close> and
  \<^verbatim>\<open>parts\<close> unguarded, where an undefined value raises a TypeError inside the
  \<^verbatim>\<open>try\<close> block.
\<close>

record Blob =
  blob_data :: "string option"
  blob_mimeType :: "string option"

record Part =
  inlineData :: "Blob option"
  part_text :: "string option"

record Content =
  parts :: "Part list option"

record Candidate =
  content :: "Content option"

record GenerateContentResponse =
  candidates :: "Candidate list option"

type_synonym generateContent = "GenerateContentParameters \<Rightarrow> js_thrown + GenerateContentResponse"

text \<open>
  The TypeErrors of the service, with their messages in the wording of V8: reading
  \<^verbatim>\<open>.parts\<close> of an undefined \<^verbatim>\<open>content\<close>, iterating over an undefined
  \<^verbatim>\<open>parts\<close>, and reading \<^verbatim>\<open>.message\<close> of a thrown \<^verbatim>\<open>undefined\<close> or
  \<^verbatim>\<open>null\<close>.
\<close>

definition TypeError_reading_parts :: js_thrown where
  "TypeError_reading_parts = js_Error ''Cannot read properties of undefined (reading 'parts')''"

definition TypeError_not_iterable :: js_thrown where
  "TypeError_not_iterable = js_Error ''parts is not iterable''"

definition TypeError_message_of_undefined :: js_thrown where
  "TypeError_message_of_undefined =
     js_Error ''Cannot read properties of undefined (reading 'message')''"

definition TypeError_message_of_null :: js_thrown where
  "TypeError_message_of_null = js_Error ''Cannot read properties of null (reading 'message')''"

subsection \<open>editImageWithGemini\<close>

definition no_image_data_msg :: string where
  "no_image_data_msg = ''No image data provided for editing.''"

definition no_candidates_msg :: string where
  "no_candidates_msg = ''No response candidates from Gemini.''"

definition no_image_returned_msg :: string where
  "no_image_returned_msg =
     ''The model processed the request but did not return an image. Try rephrasing your prompt or ensure the request is valid for the provided images.''"

definition unexpected_gemini_msg :: string where
  "unexpected_gemini_msg = ''An unexpected error occurred while communicating with Gemini.''"

text \<open>
  \<^verbatim>\<open>s.replace(/^data:image\/(png|jpeg|jpg|webp);base64,/, "")\<close>: the pattern is
  anchored at the start, so at most one of the four prefixes matches, and it is removed.
\<close>

definition data_uri_prefixes :: "string list" where
  "data_uri_prefixes =
     [''data:image/png;base64,'', ''data:image/jpeg;base64,'',
      ''data:image/jpg;base64,'', ''data:image/webp;base64,'']"

fun replace_prefix :: "string list \<Rightarrow> string \<Rightarrow> string" where
  "replace_prefix [] s = s"
| "replace_prefix (p # ps) s =
     (if startsWith s p then drop (length p) s else replace_prefix ps s)"

definition clean_base64 :: "string \<Rightarrow> string" where
  "clean_base64 s = replace_prefix data_uri_prefixes s"

definition imageParts :: "ImageData list \<Rightarrow> RequestPart list" where
  "imageParts imageData =
     map (\<lambda>img. InlineDataPart (mimeType img) (clean_base64 (base64Data img))) imageData"

definition allContentsParts :: "ImageData list \<Rightarrow> string \<Rightarrow> RequestPart list" where
  "allContentsParts imageData prompt = TextPart prompt # imageParts imageData"

definition request_of :: "ImageData list \<Rightarrow> string \<Rightarrow> GenerateContentParameters" where
  "request_of imageData prompt =
     \<lparr>model = ''gemini-2.5-flash-image'', contents_parts = allContentsParts imageData prompt\<rparr>"

text \<open>
  The \<^verbatim>\<open>for (const part of parts)\<close> loop: the first part whose \<^verbatim>\<open>inlineData\<close> and
  \<^verbatim>\<open>inlineData.data\<close> are truthy gives the data URI, and the loop stops there.
\<close>

fun generatedImageBase64 :: "Part list \<Rightarrow> string option" where
  "generatedImageBase64 [] = None"
| "generatedImageBase64 (part # rest) =
     (case inlineData part of
        None \<Rightarrow> generatedImageBase64 rest
      | Some blob \<Rightarrow>
          (case blob_data blob of
             None \<Rightarrow> generatedImageBase64 rest
           | Some d \<Rightarrow>
               if d \<noteq> []
               then Some (''data:'' @ or_else (blob_mimeType blob) ''image/png''
                           @ '';base64,'' @ d)
               else generatedImageBase64 rest))"

text \<open>\<^verbatim>\<open>parts.find(p => p.text)\<close> and \<^verbatim>\<open>textPart?.text\<close>.\<close>

definition textPart :: "Part list \<Rightarrow> Part option" where
  "textPart ps = find (\<lambda>p. truthy (part_text p)) ps"

definition textPart_text :: "Part list \<Rightarrow> string option" where
  "textPart_text ps = (case textPart ps of None \<Rightarrow> None | Some p \<Rightarrow> part_text p)"

text \<open>
  The statements after the SDK call returns: \<^term>\<open>Inl\<close> is an exception raised inside
  the \<^verbatim>\<open>try\<close> block.
\<close>

definition parse_response :: "GenerateContentResponse \<Rightarrow> js_thrown + EditResponse" where
  "parse_response response =
     (case candidates response of
        None \<Rightarrow> Inr \<lparr>success = False, response_image = None, response_error = Some no_candidates_msg\<rparr>
      | Some [] \<Rightarrow> Inr \<lparr>success = False, response_image = None, response_error = Some no_candidates_msg\<rparr>
      | Some (candidate # _) \<Rightarrow>
          (case content candidate of
             None \<Rightarrow> Inl TypeError_reading_parts
           | Some c \<Rightarrow>
               (case parts c of
                  None \<Rightarrow> Inl TypeError_not_iterable
                | Some ps \<Rightarrow>
                    if truthy (generatedImageBase64 ps)
                    then Inr \<lparr>success = True, response_image = generatedImageBase64 ps,
                              response_error = None\<rparr>
                    else Inr \<lparr>success = False, response_image = None,
                              response_error = Some (or_else (textPart_text ps) no_image_returned_msg)\<rparr>)))"

text \<open>
  The \<^verbatim>\<open>try\<close> block: the requests submitted to the SDK, and the value returned or the
  exception raised.
\<close>

definition editImageWithGemini_try ::
  "generateContent \<Rightarrow> ImageData list \<Rightarrow> string
     \<Rightarrow> GenerateContentParameters list \<times> (js_thrown + EditResponse)" where
  "editImageWithGemini_try generate imageData prompt =
     (if length imageData = 0
      then ([], Inr \<lparr>success = False, response_image = None, response_error = Some no_image_data_msg\<rparr>)
      else
        (let request = request_of imageData prompt in
         ([request],
          (case generate request of
             Inl thrown \<Rightarrow> Inl thrown
           | Inr response \<Rightarrow> parse_response response))))"

text \<open>
  The \<^verbatim>\<open>catch\<close> clause: \<^verbatim>\<open>error.message || "An unexpected error ..."\<close>. The
  read of \<^verbatim>\<open>error.message\<close> is unguarded, so a thrown \<^verbatim>\<open>undefined\<close> or
  \<^verbatim>\<open>null\<close> raises a TypeError inside the clause (\<^term>\<open>Inl\<close>).
\<close>

definition editImageWithGemini_catch :: "js_thrown \<Rightarrow> js_thrown + EditResponse" where
  "editImageWithGemini_catch thrown =
     (case thrown of
        Thrown_undefined \<Rightarrow> Inl TypeError_message_of_undefined
      | Thrown_null \<Rightarrow> Inl TypeError_message_of_null
      | Thrown_value m \<Rightarrow>
          Inr \<lparr>success = False, response_image = None,
               response_error = Some (or_else m unexpected_gemini_msg)\<rparr>)"

text \<open>
  The whole function: the requests it submitted and the settled promise. A
  \<^verbatim>\<open>return\<close> resolves the promise; an exception raised inside the \<^verbatim>\<open>catch\<close>
  clause rejects it.
\<close>

definition editImageWithGemini ::
  "generateContent \<Rightarrow> ImageData list \<Rightarrow> string
     \<Rightarrow> GenerateContentParameters list \<times> (js_thrown + EditResponse)" where
  "editImageWithGemini generate imageData prompt =
     (case editImageWithGemini_try generate imageData prompt of
        (submitted, Inl thrown) \<Rightarrow> (submitted, editImageWithGemini_catch thrown)
      | (submitted, Inr r) \<Rightarrow> (submitted, Inr r))"

section \<open>components/Editor.tsx\<close>

subsection \<open>The browser\<close>

text \<open>
  A file of the browser: its name, its content type, the base64 encoding of its bytes
  (what a FileReader puts after the comma of a data URI), and whether a FileReader can
  read it.
\<close>

record File =
  file_name :: string
  file_type :: string
  file_base64 :: string
  file_readable :: bool

text \<open>
  \<^verbatim>\<open>Date.now()\<close>, \<^verbatim>\<open>Math.random()\<close> (both as printed in a template string) and
  \<^verbatim>\<open>URL.createObjectURL\<close>, at the \<open>i\<close>-th iteration of the upload loop.
\<close>

record Browser =
  date_now :: "nat \<Rightarrow> string"
  math_random :: "nat \<Rightarrow> string"
  createObjectURL :: "nat \<Rightarrow> File \<Rightarrow> string"

text \<open>
  \<^verbatim>\<open>FileReader.readAsDataURL\<close>: the data URI of the file, whose media type is the
  file's type (\<^verbatim>\<open>application/octet-stream\<close> for an empty type), or the error event,
  an object without a \<^verbatim>\<open>message\<close>.
\<close>

definition data_uri :: "File \<Rightarrow> string" where
  "data_uri blob =
     ''data:''
       @ (if file_type blob = [] then ''application/octet-stream'' else file_type blob)
       @ '';base64,'' @ file_base64 blob"

definition readAsDataURL :: "File \<Rightarrow> js_thrown + string" where
  "readAsDataURL blob =
     (if file_readable blob then Inr (data_uri blob) else Inl (Thrown_value None))"

definition convertBlobToBase64 :: "File \<Rightarrow> js_thrown + string" where
  "convertBlobToBase64 blob = readAsDataURL blob"

text \<open>\<^verbatim>\<open>Promise.all\<close>: all the values in order, or a rejection.\<close>

fun promise_all :: "(js_thrown + 'a) list \<Rightarrow> js_thrown + 'a list" where
  "promise_all [] = Inr []"
| "promise_all (Inl e # _) = Inl e"
| "promise_all (Inr v # ps) =
     (case promise_all ps of Inl e \<Rightarrow> Inl e | Inr vs \<Rightarrow> Inr (v # vs))"

subsection \<open>The state of the Editor component\<close>

record UploadedImage =
  img_id :: string
  img_file :: File
  previewUrl :: string
  img_mimeType :: string

record EditorState =
  uploadedImages :: "UploadedImage list"
  resultUrl :: "string option"
  prompt :: string
  appState :: AppState
  errorMessage :: string

definition initial_state :: EditorState where
  "initial_state =
     \<lparr>uploadedImages = [], resultUrl = None,
      prompt = ''Remove from this image those green markers'',
      appState = IDLE, errorMessage = []\<rparr>"

subsection \<open>processFiles\<close>

definition is_image_file :: "File \<Rightarrow> bool" where
  "is_image_file selectedFile = startsWith (file_type selectedFile) ''image/''"

definition skip_message :: "File \<Rightarrow> string" where
  "skip_message selectedFile =
     ''File '' @ [CHR 0x22] @ file_name selectedFile @ [CHR 0x22]
       @ '' is not a valid image. Skipping.''"

text \<open>The updater \<^verbatim>\<open>(prev) => (prev ? prev + ' ' : '') + `File ... Skipping.`\<close>.\<close>

definition add_skip_message :: "string \<Rightarrow> File \<Rightarrow> string" where
  "add_skip_message prev selectedFile =
     (if prev \<noteq> [] then prev @ '' '' else []) @ skip_message selectedFile"

definition new_image :: "Browser \<Rightarrow> nat \<Rightarrow> File \<Rightarrow> UploadedImage" where
  "new_image browser i selectedFile =
     \<lparr>img_id = file_name selectedFile @ ''-'' @ date_now browser i @ ''-'' @ math_random browser i,
      img_file = selectedFile,
      previewUrl = createObjectURL browser i selectedFile,
      img_mimeType = file_type selectedFile\<rparr>"

text \<open>
  The \<^verbatim>\<open>for\<close> loop from index \<open>i\<close> on, over the files that remain; it carries
  \<^verbatim>\<open>newImages\<close> and the error message that the queued updaters produce.
\<close>

fun processFiles_loop ::
  "Browser \<Rightarrow> nat \<Rightarrow> File list \<Rightarrow> UploadedImage list \<Rightarrow> string \<Rightarrow> UploadedImage list \<times> string" where
  "processFiles_loop browser i [] newImages err = (newImages, err)"
| "processFiles_loop browser i (selectedFile # rest) newImages err =
     (if \<not> is_image_file selectedFile
      then processFiles_loop browser (Suc i) rest newImages (add_skip_message err selectedFile)
      else processFiles_loop browser (Suc i) rest
             (newImages @ [new_image browser i selectedFile]) err)"

definition processFiles :: "Browser \<Rightarrow> File list \<Rightarrow> EditorState \<Rightarrow> EditorState" where
  "processFiles browser selectedFiles s =
     (case processFiles_loop browser 0 selectedFiles [] [] of
        (newImages, err) \<Rightarrow>
          s\<lparr>errorMessage := err,
            uploadedImages := uploadedImages s @ newImages,
            resultUrl := None,
            appState := IDLE\<rparr>)"

subsection \<open>handleGenerate\<close>

definition missing_input_msg :: string where
  "missing_input_msg = ''Please upload at least one image and provide a prompt.''"

definition unexpected_msg :: string where
  "unexpected_msg = ''An unexpected error occurred.''"

definition failed_msg :: string where
  "failed_msg = ''Failed to generate image.''"

text \<open>The submission check \<^verbatim>\<open>uploadedImages.length === 0 || !prompt.trim()\<close>.\<close>

definition blocked :: "EditorState \<Rightarrow> bool" where
  "blocked s = (length (uploadedImages s) = 0 \<or> \<not> truthy (Some (trim (prompt s))))"

text \<open>
  \<^verbatim>\<open>uploadedImages.map(async (img) => ...)\<close> under \<^verbatim>\<open>Promise.all\<close>: each image is
  read and paired with its content type.
\<close>

definition read_images :: "UploadedImage list \<Rightarrow> js_thrown + ImageData list" where
  "read_images imgs =
     promise_all
       (map (\<lambda>img. case convertBlobToBase64 (img_file img) of
                      Inl e \<Rightarrow> Inl e
                    | Inr b \<Rightarrow> Inr \<lparr>base64Data = b, mimeType = img_mimeType img\<rparr>) imgs)"

text \<open>
  The statements after \<^verbatim>\<open>await editImageWithGemini(...)\<close>, on the settled promise:
  the \<^verbatim>\<open>if\<close> on the response, or the \<^verbatim>\<open>catch\<close> clause on a rejection.
\<close>

definition handleGenerate_settle :: "EditorState \<Rightarrow> js_thrown + EditResponse \<Rightarrow> EditorState" where
  "handleGenerate_settle s settled =
     (case settled of
        Inl _ \<Rightarrow> s\<lparr>appState := ERROR, errorMessage := unexpected_msg\<rparr>
      | Inr response \<Rightarrow>
          if success response \<and> truthy (response_image response)
          then s\<lparr>resultUrl := response_image response, appState := SUCCESS\<rparr>
          else s\<lparr>appState := ERROR,
                 errorMessage := or_else (response_error response) failed_msg\<rparr>)"

text \<open>
  A generate action: the successive states of the component (after the synchronous
  part, and after the awaited work when there is any) and the requests submitted to the
  SDK.
\<close>

definition handleGenerate ::
  "generateContent \<Rightarrow> EditorState \<Rightarrow> EditorState list \<times> GenerateContentParameters list" where
  "handleGenerate generate s =
     (if blocked s then ([s\<lparr>errorMessage := missing_input_msg\<rparr>], [])
      else
        (let s1 = s\<lparr>appState := PROCESSING, errorMessage := []\<rparr> in
         (case read_images (uploadedImages s) of
            Inl e \<Rightarrow> ([s1, handleGenerate_settle s1 (Inl e)], [])
          | Inr imageData \<Rightarrow>
              (case editImageWithGemini generate imageData (prompt s) of
                 (submitted, settled) \<Rightarrow> ([s1, handleGenerate_settle s1 settled], submitted)))))"

section \<open>Vocabulary of the properties\<close>

text \<open>The SDK call as a function: one that returns a given response, one that throws.\<close>

definition sdk_returns :: "GenerateContentResponse \<Rightarrow> generateContent" where
  "sdk_returns response request = Inr response"

definition sdk_throws :: "js_thrown \<Rightarrow> generateContent" where
  "sdk_throws thrown request = Inl thrown"

text \<open>
  A part that has inline image data, a part that has a text, and the data URI that the
  service builds from an inline blob and its data.
\<close>

definition carries_image :: "Part \<Rightarrow> bool" where
  "carries_image p = (case inlineData p of None \<Rightarrow> False | Some blob \<Rightarrow> truthy (blob_data blob))"

definition carries_text :: "Part \<Rightarrow> bool" where
  "carries_text p = truthy (part_text p)"

definition data_uri_of :: "Blob \<Rightarrow> string \<Rightarrow> string" where
  "data_uri_of blob d = ''data:'' @ or_else (blob_mimeType blob) ''image/png'' @ '';base64,'' @ d"

text \<open>The two shapes of an EditResponse: an image and no error, or an error and no image.\<close>

definition well_formed :: "EditResponse \<Rightarrow> bool" where
  "well_formed r =
     (if success r then truthy (response_image r) \<and> response_error r = None
      else truthy (response_error r) \<and> response_image r = None)"

text \<open>
  The failures of the external call: a thrown error, a missing or empty candidate list,
  a response with no image part (also a first candidate without content or without a
  parts list).
\<close>

definition external_call_fails :: "js_thrown + GenerateContentResponse \<Rightarrow> bool" where
  "external_call_fails outcome =
     (case outcome of
        Inl thrown \<Rightarrow> True
      | Inr response \<Rightarrow>
          (case candidates response of
             None \<Rightarrow> True
           | Some [] \<Rightarrow> True
           | Some (candidate # _) \<Rightarrow>
               (case content candidate of
                  None \<Rightarrow> True
                | Some c \<Rightarrow>
                    (case parts c of
                       None \<Rightarrow> True
                     | Some ps \<Rightarrow> find carries_image ps = None))))"

text \<open>The SDK promise rejects with \<^verbatim>\<open>undefined\<close> or \<^verbatim>\<open>null\<close>.\<close>

definition rejects_with_nullish :: "js_thrown + GenerateContentResponse \<Rightarrow> bool" where
  "rejects_with_nullish outcome = (outcome = Inl Thrown_undefined \<or> outcome = Inl Thrown_null)"

text \<open>Concrete requests and responses.\<close>

definition response_with_parts :: "Part list \<Rightarrow> GenerateContentResponse" where
  "response_with_parts ps = \<lparr>candidates = Some [\<lparr>content = Some \<lparr>parts = Some ps\<rparr>\<rparr>]\<rparr>"

definition png_upload :: ImageData where
  "png_upload = \<lparr>base64Data = ''data:image/png;base64,iVBORw0KGgo='', mimeType = ''image/png''\<rparr>"

definition jpeg_part :: Part where
  "jpeg_part =
     \<lparr>inlineData = Some \<lparr>blob_data = Some ''QUJD'', blob_mimeType = Some ''image/jpeg''\<rparr>,
      part_text = None\<rparr>"

definition untyped_part :: Part where
  "untyped_part =
     \<lparr>inlineData = Some \<lparr>blob_data = Some ''QUJD'', blob_mimeType = None\<rparr>, part_text = None\<rparr>"

definition empty_data_part :: Part where
  "empty_data_part =
     \<lparr>inlineData = Some \<lparr>blob_data = Some [], blob_mimeType = Some ''image/png''\<rparr>,
      part_text = None\<rparr>"

definition refusal_part :: Part where
  "refusal_part = \<lparr>inlineData = None, part_text = Some ''I cannot edit this image.''\<rparr>"

text \<open>The skip messages joined by single spaces.\<close>

fun join_with_space :: "string list \<Rightarrow> string" where
  "join_with_space [] = []"
| "join_with_space [m] = m"
| "join_with_space (m # ms) = m @ '' '' @ join_with_space ms"

text \<open>Concrete files, uploaded images and component states.\<close>

definition sample_browser :: Browser where
  "sample_browser =
     \<lparr>date_now = (\<lambda>i. ''1762000000000''), math_random = (\<lambda>i. ''0.5''),
      createObjectURL = (\<lambda>i f. ''blob:'' @ file_name f)\<rparr>"

definition png_file :: File where
  "png_file = \<lparr>file_name = ''cat.png'', file_type = ''image/png'',
                file_base64 = ''iVBORw0KGgo='', file_readable = True\<rparr>"

definition gif_file :: File where
  "gif_file = \<lparr>file_name = ''anim.gif'', file_type = ''image/gif'',
                file_base64 = ''R0lGODlhAQABAAAAACw='', file_readable = True\<rparr>"

definition text_file :: File where
  "text_file = \<lparr>file_name = ''notes.txt'', file_type = ''text/plain'',
                 file_base64 = ''aGVsbG8='', file_readable = True\<rparr>"

definition pdf_file :: File where
  "pdf_file = \<lparr>file_name = ''doc.pdf'', file_type = ''application/pdf'',
                file_base64 = ''JVBERi0='', file_readable = True\<rparr>"

definition png_image :: UploadedImage where
  "png_image = \<lparr>img_id = ''cat.png-1762000000000-0.5'', img_file = png_file,
                 previewUrl = ''blob:cat.png'', img_mimeType = ''image/png''\<rparr>"

definition gif_image :: UploadedImage where
  "gif_image = \<lparr>img_id = ''anim.gif-1762000000000-0.5'', img_file = gif_file,
                 previewUrl = ''blob:anim.gif'', img_mimeType = ''image/gif''\<rparr>"

definition unreadable_image :: UploadedImage where
  "unreadable_image =
     \<lparr>img_id = ''gone.png-1762000000000-0.5'',
      img_file = \<lparr>file_name = ''gone.png'', file_type = ''image/png'', file_base64 = [],
                   file_readable = False\<rparr>,
      previewUrl = ''blob:gone.png'', img_mimeType = ''image/png''\<rparr>"

definition state_with :: "UploadedImage list \<Rightarrow> string \<Rightarrow> EditorState" where
  "state_with imgs instruction =
     \<lparr>uploadedImages = imgs, resultUrl = None, prompt = instruction,
      appState = IDLE, errorMessage = []\<rparr>"

section \<open>Properties of the service\<close>

subsection \<open>Auxiliary facts\<close>

lemma truthy_Some [simp]: "truthy (Some s) = (s \<noteq> [])"
  by (simp add: truthy_def)

lemma truthy_None [simp]: "\<not> truthy None"
  by (simp add: truthy_def)

lemma or_else_nonempty: "d \<noteq> [] \<Longrightarrow> or_else v d \<noteq> []"
  by (simp add: or_else_def split: option.splits)

lemma generatedImageBase64_find:
  "generatedImageBase64 ps =
     (case find carries_image ps of
        None \<Rightarrow> None
      | Some p \<Rightarrow> Some (data_uri_of (the (inlineData p)) (the (blob_data (the (inlineData p))))))"
  by (induction ps) (auto simp: carries_image_def data_uri_of_def split: option.splits)

lemma generatedImageBase64_nonempty: "generatedImageBase64 ps = Some u \<Longrightarrow> u \<noteq> []"
  by (induction ps) (auto split: option.splits if_splits)

lemma truthy_generatedImageBase64:
  "truthy (generatedImageBase64 ps) = (find carries_image ps \<noteq> None)"
  by (induction ps) (auto simp: carries_image_def split: option.splits)

lemma textPart_text_find:
  "or_else (textPart_text ps) d =
     (case find carries_text ps of None \<Rightarrow> d | Some p \<Rightarrow> the (part_text p))"
  unfolding textPart_text_def textPart_def carries_text_def [abs_def]
  by (auto simp: or_else_def truthy_def split: option.splits dest: find_Some_iff [THEN iffD1])

lemma editImageWithGemini_no_images:
  "editImageWithGemini generate [] instruction =
     ([], Inr \<lparr>success = False, response_image = None, response_error = Some no_image_data_msg\<rparr>)"
  by (simp add: editImageWithGemini_def editImageWithGemini_try_def)

lemma editImageWithGemini_submitted:
  "imageData \<noteq> [] \<Longrightarrow>
     fst (editImageWithGemini generate imageData instruction) = [request_of imageData instruction]"
  by (simp add: editImageWithGemini_def editImageWithGemini_try_def Let_def split: sum.splits)

lemma editImageWithGemini_thrown:
  "imageData \<noteq> [] \<Longrightarrow> generate (request_of imageData instruction) = Inl thrown \<Longrightarrow>
     snd (editImageWithGemini generate imageData instruction) = editImageWithGemini_catch thrown"
  by (simp add: editImageWithGemini_def editImageWithGemini_try_def Let_def)

lemma editImageWithGemini_returned:
  "imageData \<noteq> [] \<Longrightarrow> generate (request_of imageData instruction) = Inr response \<Longrightarrow>
     snd (editImageWithGemini generate imageData instruction) =
       (case parse_response response of
          Inl thrown \<Rightarrow> editImageWithGemini_catch thrown
        | Inr r \<Rightarrow> Inr r)"
  by (simp add: editImageWithGemini_def editImageWithGemini_try_def Let_def split: sum.splits)

lemma parse_response_parts:
  "candidates response = Some (candidate # others) \<Longrightarrow> content candidate = Some c \<Longrightarrow>
   parts c = Some ps \<Longrightarrow>
     parse_response response =
       Inr (if find carries_image ps \<noteq> None
            then \<lparr>success = True, response_image = generatedImageBase64 ps, response_error = None\<rparr>
            else \<lparr>success = False, response_image = None,
                  response_error = Some (or_else (textPart_text ps) no_image_returned_msg)\<rparr>)"
  by (simp add: parse_response_def truthy_generatedImageBase64)

lemma no_image_returned_msg_nonempty: "no_image_returned_msg \<noteq> []"
  by (simp add: no_image_returned_msg_def)

lemma catch_value:
  "editImageWithGemini_catch (Thrown_value m) =
     Inr \<lparr>success = False, response_image = None,
          response_error = Some (or_else m unexpected_gemini_msg)\<rparr>"
  by (simp add: editImageWithGemini_catch_def)

lemma catch_shape: "editImageWithGemini_catch thrown = Inr r \<Longrightarrow> well_formed r"
  by (cases thrown)
     (auto simp: editImageWithGemini_catch_def well_formed_def or_else_nonempty
        unexpected_gemini_msg_def)

lemma catch_resolves:
  "thrown \<noteq> Thrown_undefined \<Longrightarrow> thrown \<noteq> Thrown_null \<Longrightarrow>
     \<exists>r. editImageWithGemini_catch thrown = Inr r \<and> \<not> success r"
  by (cases thrown) (simp_all add: editImageWithGemini_catch_def)

lemma parse_response_shape:
  "(\<exists>m. parse_response response = Inl (js_Error m)) \<or>
   (\<exists>r. parse_response response = Inr r \<and> well_formed r)"
proof (cases "candidates response")
  case None
  then show ?thesis by (simp add: parse_response_def well_formed_def no_candidates_msg_def)
next
  case (Some cs)
  show ?thesis
  proof (cases cs)
    case Nil
    with Some show ?thesis by (simp add: parse_response_def well_formed_def no_candidates_msg_def)
  next
    case (Cons candidate others)
    show ?thesis
    proof (cases "content candidate")
      case None
      with Some Cons show ?thesis by (auto simp: parse_response_def TypeError_reading_parts_def)
    next
      case c: (Some c)
      show ?thesis
      proof (cases "parts c")
        case None
        with Some Cons c show ?thesis by (auto simp: parse_response_def TypeError_not_iterable_def)
      next
        case ps: (Some ps)
        show ?thesis
        proof (cases "generatedImageBase64 ps")
          case None
          with Some Cons c ps show ?thesis
            by (simp add: parse_response_def well_formed_def or_else_nonempty
                  no_image_returned_msg_nonempty)
        next
          case u: (Some u)
          then have "u \<noteq> []" by (rule generatedImageBase64_nonempty)
          with Some Cons c ps u show ?thesis
            by (simp add: parse_response_def well_formed_def)
        qed
      qed
    qed
  qed
qed

lemma editImageWithGemini_well_formed:
  assumes "snd (editImageWithGemini generate imageData instruction) = Inr r"
  shows "well_formed r"
proof (cases "imageData = []")
  case True
  with assms show ?thesis
    by (auto simp: editImageWithGemini_no_images well_formed_def no_image_data_msg_def)
next
  case False
  show ?thesis
  proof (cases "generate (request_of imageData instruction)")
    case (Inl thrown)
    with False assms have "editImageWithGemini_catch thrown = Inr r"
      by (simp add: editImageWithGemini_thrown)
    then show ?thesis by (rule catch_shape)
  next
    case (Inr response)
    from parse_response_shape [of response] show ?thesis
    proof
      assume "\<exists>m. parse_response response = Inl (js_Error m)"
      then obtain m where "parse_response response = Inl (js_Error m)" ..
      with False Inr assms have "editImageWithGemini_catch (js_Error m) = Inr r"
        by (simp add: editImageWithGemini_returned)
      then show ?thesis by (rule catch_shape)
    next
      assume "\<exists>r'. parse_response response = Inr r' \<and> well_formed r'"
      with False Inr assms show ?thesis
        by (auto simp: editImageWithGemini_returned)
    qed
  qed
qed

lemma editImageWithGemini_rejects_iff:
  "(\<exists>e. snd (editImageWithGemini generate imageData instruction) = Inl e) \<longleftrightarrow>
     imageData \<noteq> [] \<and> rejects_with_nullish (generate (request_of imageData instruction))"
proof (cases "imageData = []")
  case True
  then show ?thesis by (simp add: editImageWithGemini_no_images)
next
  case False
  show ?thesis
  proof (cases "generate (request_of imageData instruction)")
    case (Inl thrown)
    with False show ?thesis
      by (cases thrown)
         (simp_all add: editImageWithGemini_thrown editImageWithGemini_catch_def
            rejects_with_nullish_def)
  next
    case (Inr response)
    from parse_response_shape [of response] show ?thesis
    proof
      assume "\<exists>m. parse_response response = Inl (js_Error m)"
      then obtain m where "parse_response response = Inl (js_Error m)" ..
      with False Inr show ?thesis
        by (simp add: editImageWithGemini_returned js_Error_def catch_value
              rejects_with_nullish_def)
    next
      assume "\<exists>r. parse_response response = Inr r \<and> well_formed r"
      with False Inr show ?thesis
        by (auto simp: editImageWithGemini_returned rejects_with_nullish_def)
    qed
  qed
qed

lemma editImageWithGemini_resolves:
  assumes "imageData = [] \<or> \<not> rejects_with_nullish (generate (request_of imageData instruction))"
  shows "\<exists>r. snd (editImageWithGemini generate imageData instruction) = Inr r \<and> well_formed r"
proof -
  from assms editImageWithGemini_rejects_iff [of generate imageData instruction]
  have "\<not> (\<exists>e. snd (editImageWithGemini generate imageData instruction) = Inl e)"
    by blast
  then obtain r where "snd (editImageWithGemini generate imageData instruction) = Inr r"
    by (cases "snd (editImageWithGemini generate imageData instruction)") auto
  then show ?thesis using editImageWithGemini_well_formed by blast
qed

lemma parse_response_fails:
  "external_call_fails (Inr response) \<Longrightarrow>
     (case parse_response response of Inl thrown \<Rightarrow> True | Inr r' \<Rightarrow> \<not> success r')"
proof (cases "candidates response")
  case None
  then show ?thesis by (simp add: parse_response_def)
next
  case (Some cs)
  assume fails: "external_call_fails (Inr response)"
  show ?thesis
  proof (cases cs)
    case Nil
    with Some show ?thesis by (simp add: parse_response_def)
  next
    case (Cons candidate others)
    show ?thesis
    proof (cases "content candidate")
      case None
      with Some Cons show ?thesis by (simp add: parse_response_def)
    next
      case c: (Some c)
      show ?thesis
      proof (cases "parts c")
        case None
        with Some Cons c show ?thesis by (simp add: parse_response_def)
      next
        case ps: (Some ps)
        with fails Some Cons c have "find carries_image ps = None"
          by (simp add: external_call_fails_def)
        with Some Cons c ps show ?thesis
          by (simp add: parse_response_parts)
      qed
    qed
  qed
qed

lemma find_carries_image_blob:
  "find carries_image ps = Some p \<Longrightarrow> inlineData p = Some blob \<Longrightarrow> blob_data blob = Some d \<Longrightarrow>
     generatedImageBase64 ps = Some (data_uri_of blob d)"
  by (simp add: generatedImageBase64_find)

lemmas sample_defs = sdk_returns_def response_with_parts_def png_upload_def jpeg_part_def
  untyped_part_def empty_data_part_def refusal_part_def carries_image_def carries_text_def
  truthy_def or_else_def

section \<open>Auxiliary facts about the Editor component\<close>

lemma trim_empty_iff: "trim s = [] \<longleftrightarrow> (\<forall>c\<in>set s. is_js_whitespace c)"
proof
  assume "trim s = []"
  then have all: "\<forall>c\<in>set (dropWhile is_js_whitespace s). is_js_whitespace c"
    by (simp add: trim_def dropWhile_eq_Nil_conv)
  have "dropWhile is_js_whitespace s = []"
  proof (rule ccontr)
    assume ne: "dropWhile is_js_whitespace s \<noteq> []"
    then have "\<not> is_js_whitespace (hd (dropWhile is_js_whitespace s))"
      by (rule hd_dropWhile)
    moreover from ne have "hd (dropWhile is_js_whitespace s) \<in> set (dropWhile is_js_whitespace s)"
      by (rule hd_in_set)
    ultimately show False using all by blast
  qed
  then show "\<forall>c\<in>set s. is_js_whitespace c"
    by (simp add: dropWhile_eq_Nil_conv)
next
  assume "\<forall>c\<in>set s. is_js_whitespace c"
  then show "trim s = []"
    by (auto simp: trim_def dest: set_dropWhileD)
qed

lemma blocked_iff:
  "blocked s \<longleftrightarrow> uploadedImages s = [] \<or> (\<forall>c\<in>set (prompt s). is_js_whitespace c)"
  by (simp add: blocked_def truthy_def trim_empty_iff)

lemma read_images_readable:
  "\<forall>img\<in>set imgs. file_readable (img_file img) \<Longrightarrow>
     read_images imgs =
       Inr (map (\<lambda>img. \<lparr>base64Data = data_uri (img_file img), mimeType = img_mimeType img\<rparr>) imgs)"
  unfolding read_images_def
  by (induction imgs) (simp_all add: convertBlobToBase64_def readAsDataURL_def)

lemma read_images_Inr:
  "read_images imgs = Inr imageData \<Longrightarrow>
     imageData = map (\<lambda>img. \<lparr>base64Data = data_uri (img_file img), mimeType = img_mimeType img\<rparr>) imgs"
  unfolding read_images_def
proof (induction imgs arbitrary: imageData)
  case Nil
  then show ?case by simp
next
  case (Cons img imgs)
  then show ?case
    by (auto simp: convertBlobToBase64_def readAsDataURL_def split: if_splits sum.splits)
qed

lemma handleGenerate_blocked:
  "blocked s \<Longrightarrow> handleGenerate generate s = ([s\<lparr>errorMessage := missing_input_msg\<rparr>], [])"
  by (simp add: handleGenerate_def)

lemma handleGenerate_started:
  "\<not> blocked s \<Longrightarrow> read_images (uploadedImages s) = Inr imageData \<Longrightarrow>
     handleGenerate generate s =
       ([s\<lparr>appState := PROCESSING, errorMessage := []\<rparr>,
         handleGenerate_settle (s\<lparr>appState := PROCESSING, errorMessage := []\<rparr>)
           (snd (editImageWithGemini generate imageData (prompt s)))],
        fst (editImageWithGemini generate imageData (prompt s)))"
  by (simp add: handleGenerate_def Let_def split: prod.splits)

lemma handleGenerate_unreadable:
  "\<not> blocked s \<Longrightarrow> read_images (uploadedImages s) = Inl e \<Longrightarrow>
     handleGenerate generate s =
       ([s\<lparr>appState := PROCESSING, errorMessage := []\<rparr>,
         s\<lparr>appState := ERROR, errorMessage := unexpected_msg\<rparr>], [])"
  by (simp add: handleGenerate_def Let_def handleGenerate_settle_def)

lemma appState_settle:
  "appState (handleGenerate_settle s settled) =
     (case settled of
        Inl e \<Rightarrow> ERROR
      | Inr response \<Rightarrow>
          if success response \<and> truthy (response_image response) then SUCCESS else ERROR)"
  by (simp add: handleGenerate_settle_def split: sum.splits)

lemma skip_message_nonempty: "skip_message f \<noteq> []"
  by (simp add: skip_message_def)

lemma foldl_add_skip_message:
  "foldl add_skip_message err fs =
     (if fs = [] then err
      else (if err \<noteq> [] then err @ '' '' else []) @ join_with_space (map skip_message fs))"
proof (induction fs arbitrary: err)
  case Nil
  then show ?case by simp
next
  case (Cons f fs)
  have ne: "add_skip_message err f \<noteq> []"
    by (simp add: add_skip_message_def skip_message_nonempty)
  show ?case
  proof (cases fs)
    case Nil
    then show ?thesis by (simp add: add_skip_message_def)
  next
    case (Cons g gs)
    with Cons.IH [of "add_skip_message err f"] ne show ?thesis
      by (simp add: add_skip_message_def)
  qed
qed

lemma processFiles_loop_err:
  "snd (processFiles_loop browser i fs newImages err) =
     foldl add_skip_message err (filter (\<lambda>f. \<not> is_image_file f) fs)"
  by (induction fs arbitrary: i newImages err) simp_all

lemma processFiles_loop_images:
  "\<exists>added. fst (processFiles_loop browser i fs newImages err) = newImages @ added \<and>
     map img_file added = filter is_image_file fs \<and>
     map img_mimeType added = map file_type (filter is_image_file fs)"
proof (induction fs arbitrary: i newImages err)
  case Nil
  then show ?case by simp
next
  case (Cons f fs)
  show ?case
  proof (cases "is_image_file f")
    case False
    with Cons.IH [of "Suc i" newImages "add_skip_message err f"] show ?thesis by simp
  next
    case True
    from Cons.IH [of "Suc i" "newImages @ [new_image browser i f]" err]
    obtain added where
      "fst (processFiles_loop browser (Suc i) fs (newImages @ [new_image browser i f]) err) =
         (newImages @ [new_image browser i f]) @ added"
      and "map img_file added = filter is_image_file fs"
      and "map img_mimeType added = map file_type (filter is_image_file fs)"
      by blast
    with True show ?thesis
      by (intro exI [of _ "new_image browser i f # added"]) (simp add: new_image_def)
  qed
qed

lemmas editor_sample_defs = state_with_def png_image_def gif_image_def unreadable_image_def png_file_def gif_file_def
  text_file_def pdf_file_def sample_browser_def

lemma not_blocked_sample: "\<not> blocked (state_with [png_image] ''make it blue'')"
  by (simp add: blocked_iff state_with_def is_js_whitespace_def)

lemma clean_base64_supported:
  "file_type f \<in> {''image/png'', ''image/jpeg'', ''image/jpg'', ''image/webp''} \<Longrightarrow>
     clean_base64 (data_uri f) = file_base64 f"
  by (auto simp: clean_base64_def data_uri_prefixes_def data_uri_def startsWith_def)

subsection \<open>Failures that resolve\<close>

text \<open>
  When no image data is given, or the external call fails otherwise than by rejecting
  with \<^verbatim>\<open>undefined\<close> or \<^verbatim>\<open>null\<close>, the promise resolves to
  \<^verbatim>\<open>{success: false, error: s}\<close> with \<open>s\<close> a non-empty string.
\<close>

lemma editImageWithGemini_failure:
  assumes "imageData = [] \<or>
     (external_call_fails (generate (request_of imageData instruction)) \<and>
      \<not> rejects_with_nullish (generate (request_of imageData instruction)))"
  shows "\<exists>s. s \<noteq> [] \<and>
     snd (editImageWithGemini generate imageData instruction) =
       Inr \<lparr>success = False, response_image = None, response_error = Some s\<rparr>"
proof -
  from assms obtain r where r: "snd (editImageWithGemini generate imageData instruction) = Inr r"
    and wf: "well_formed r"
    using editImageWithGemini_resolves [of imageData generate instruction] by blast
  have "\<not> success r"
  proof (cases "imageData = []")
    case True
    with r show ?thesis by (auto simp: editImageWithGemini_no_images)
  next
    case False
    with assms have fails: "external_call_fails (generate (request_of imageData instruction))"
      by simp
    show ?thesis
    proof (cases "generate (request_of imageData instruction)")
      case (Inl thrown)
      with False r show ?thesis
        by (cases thrown)
           (auto simp: editImageWithGemini_thrown editImageWithGemini_catch_def)
    next
      case (Inr response)
      with fails have fails': "case parse_response response of
          Inl thrown \<Rightarrow> True | Inr r' \<Rightarrow> \<not> success r'"
        by (simp add: parse_response_fails)
      from parse_response_shape [of response] show ?thesis
      proof
        assume "\<exists>m. parse_response response = Inl (js_Error m)"
        then obtain m where "parse_response response = Inl (js_Error m)" ..
        with False Inr r show ?thesis
          by (auto simp: editImageWithGemini_returned js_Error_def catch_value)
      next
        assume "\<exists>r'. parse_response response = Inr r' \<and> well_formed r'"
        with False Inr r fails' show ?thesis
          by (auto simp: editImageWithGemini_returned)
      qed
    qed
  qed
  with wf have "\<exists>s. s \<noteq> [] \<and>
      r = \<lparr>success = False, response_image = None, response_error = Some s\<rparr>"
    by (cases r) (auto simp: well_formed_def truthy_def split: option.splits)
  with r show ?thesis by auto
qed

subsection \<open>Parsing a response whose first candidate carries a parts list\<close>

text \<open>
  When some part has a non-empty \<^verbatim>\<open>inlineData.data\<close>, the service returns success
  with the data of the first such part, formatted as a data URI; when no part has one, it
  returns failure with the text of the first part that has a non-empty text, or with the
  fixed default message when no part has one.
\<close>

lemma editImageWithGemini_with_parts:
  assumes "imageData \<noteq> []"
    and "generate (request_of imageData instruction) = Inr response"
    and "candidates response = Some (candidate # others)"
    and "content candidate = Some c"
    and "parts c = Some ps"
  shows "(find carries_image ps = Some p \<and> inlineData p = Some blob \<and> blob_data blob = Some d \<longrightarrow>
            snd (editImageWithGemini generate imageData instruction) =
              Inr \<lparr>success = True,
                   response_image =
                     Some (''data:'' @ or_else (blob_mimeType blob) ''image/png'' @ '';base64,'' @ d),
                   response_error = None\<rparr>) \<and>
         (find carries_image ps = None \<and> find carries_text ps = Some q \<and> part_text q = Some t \<longrightarrow>
            snd (editImageWithGemini generate imageData instruction) =
              Inr \<lparr>success = False, response_image = None, response_error = Some t\<rparr>) \<and>
         (find carries_image ps = None \<and> find carries_text ps = None \<longrightarrow>
            snd (editImageWithGemini generate imageData instruction) =
              Inr \<lparr>success = False, response_image = None,
                   response_error = Some no_image_returned_msg\<rparr>)"
proof -
  have run: "snd (editImageWithGemini generate imageData instruction) = parse_response response"
    using assms by (simp add: editImageWithGemini_returned parse_response_parts)
  have parsed: "parse_response response =
       Inr (if find carries_image ps \<noteq> None
            then \<lparr>success = True, response_image = generatedImageBase64 ps, response_error = None\<rparr>
            else \<lparr>success = False, response_image = None,
                  response_error = Some (or_else (textPart_text ps) no_image_returned_msg)\<rparr>)"
    using assms(3-5) by (rule parse_response_parts)
  have image: "find carries_image ps = Some p \<and> inlineData p = Some blob \<and> blob_data blob = Some d \<longrightarrow>
      parse_response response =
        Inr \<lparr>success = True,
             response_image =
               Some (''data:'' @ or_else (blob_mimeType blob) ''image/png'' @ '';base64,'' @ d),
             response_error = None\<rparr>"
    using parsed by (auto simp: find_carries_image_blob data_uri_of_def)
  have textual: "find carries_image ps = None \<and> find carries_text ps = Some q \<and> part_text q = Some t \<longrightarrow>
      parse_response response =
        Inr \<lparr>success = False, response_image = None, response_error = Some t\<rparr>"
    using parsed by (simp add: textPart_text_find)
  have fallback: "find carries_image ps = None \<and> find carries_text ps = None \<longrightarrow>
      parse_response response =
        Inr \<lparr>success = False, response_image = None, response_error = Some no_image_returned_msg\<rparr>"
    using parsed by (simp add: textPart_text_find)
  from image textual fallback show ?thesis unfolding run by blast
qed

lemma editImageWithGemini_with_parts_examples:
  "snd (editImageWithGemini (sdk_returns (response_with_parts [refusal_part, jpeg_part, untyped_part]))
          [png_upload] ''make it blue'') =
     Inr \<lparr>success = True, response_image = Some ''data:image/jpeg;base64,QUJD'',
          response_error = None\<rparr> \<and>
   snd (editImageWithGemini (sdk_returns (response_with_parts [empty_data_part, refusal_part]))
          [png_upload] ''make it blue'') =
     Inr \<lparr>success = False, response_image = None,
          response_error = Some ''I cannot edit this image.''\<rparr> \<and>
   snd (editImageWithGemini (sdk_returns (response_with_parts [empty_data_part]))
          [png_upload] ''make it blue'') =
     Inr \<lparr>success = False, response_image = None, response_error = Some no_image_returned_msg\<rparr>"
proof -
  let ?blob = "\<lparr>blob_data = Some ''QUJD'', blob_mimeType = Some ''image/jpeg''\<rparr>"
  note a = editImageWithGemini_with_parts
    [where imageData = "[png_upload]" and instruction = "''make it blue''"
       and generate = "sdk_returns (response_with_parts [refusal_part, jpeg_part, untyped_part])"
       and response = "response_with_parts [refusal_part, jpeg_part, untyped_part]"
       and candidate = "\<lparr>content = Some \<lparr>parts = Some [refusal_part, jpeg_part, untyped_part]\<rparr>\<rparr>"
       and others = "[]" and c = "\<lparr>parts = Some [refusal_part, jpeg_part, untyped_part]\<rparr>"
       and ps = "[refusal_part, jpeg_part, untyped_part]"
       and p = jpeg_part and blob = ?blob and d = "''QUJD''"]
  note b = editImageWithGemini_with_parts
    [where imageData = "[png_upload]" and instruction = "''make it blue''"
       and generate = "sdk_returns (response_with_parts [empty_data_part, refusal_part])"
       and response = "response_with_parts [empty_data_part, refusal_part]"
       and candidate = "\<lparr>content = Some \<lparr>parts = Some [empty_data_part, refusal_part]\<rparr>\<rparr>"
       and others = "[]" and c = "\<lparr>parts = Some [empty_data_part, refusal_part]\<rparr>"
       and ps = "[empty_data_part, refusal_part]"
       and q = refusal_part and t = "''I cannot edit this image.''"]
  note c = editImageWithGemini_with_parts
    [where imageData = "[png_upload]" and instruction = "''make it blue''"
       and generate = "sdk_returns (response_with_parts [empty_data_part])"
       and response = "response_with_parts [empty_data_part]"
       and candidate = "\<lparr>content = Some \<lparr>parts = Some [empty_data_part]\<rparr>\<rparr>"
       and others = "[]" and c = "\<lparr>parts = Some [empty_data_part]\<rparr>"
       and ps = "[empty_data_part]"]
  have 1: "snd (editImageWithGemini (sdk_returns (response_with_parts [refusal_part, jpeg_part, untyped_part]))
          [png_upload] ''make it blue'') =
     Inr \<lparr>success = True, response_image = Some ''data:image/jpeg;base64,QUJD'',
          response_error = None\<rparr>"
    using a by (simp add: sample_defs)
  have 2: "snd (editImageWithGemini (sdk_returns (response_with_parts [empty_data_part, refusal_part]))
          [png_upload] ''make it blue'') =
     Inr \<lparr>success = False, response_image = None,
          response_error = Some ''I cannot edit this image.''\<rparr>"
    using b by (simp add: sample_defs)
  have 3: "snd (editImageWithGemini (sdk_returns (response_with_parts [empty_data_part]))
          [png_upload] ''make it blue'') =
     Inr \<lparr>success = False, response_image = None, response_error = Some no_image_returned_msg\<rparr>"
    using c by (simp add: sample_defs)
  from 1 2 3 show ?thesis by blast
qed

section \<open>The claims\<close>

subsection \<open>Response parsing\<close>

text \<open>
  C1 fails on the code for a response whose candidate list is not empty and whose first
  candidate has no content, or a content without a parts list. No part carries inline
  image data and no part carries a text, so the claim gives the fixed default message;
  the unguarded read of \<^verbatim>\<open>candidates[0].content.parts\<close> raises a TypeError instead,
  and the response carries the message of that TypeError.
\<close>

theorem editImageWithGemini_missing_content:
  "snd (editImageWithGemini (sdk_returns \<lparr>candidates = Some [\<lparr>content = None\<rparr>]\<rparr>)
          [png_upload] ''make it blue'') =
     Inr \<lparr>success = False, response_image = None,
          response_error = Some ''Cannot read properties of undefined (reading 'parts')''\<rparr> \<and>
   ''Cannot read properties of undefined (reading 'parts')'' \<noteq> no_image_returned_msg \<and>
   snd (editImageWithGemini
          (sdk_returns \<lparr>candidates = Some [\<lparr>content = Some \<lparr>parts = None\<rparr>\<rparr>]\<rparr>)
          [png_upload] ''make it blue'') =
     Inr \<lparr>success = False, response_image = None,
          response_error = Some ''parts is not iterable''\<rparr> \<and>
   ''parts is not iterable'' \<noteq> no_image_returned_msg"
  by (simp add: editImageWithGemini_def editImageWithGemini_try_def Let_def sdk_returns_def
        png_upload_def parse_response_def TypeError_reading_parts_def TypeError_not_iterable_def
        js_Error_def editImageWithGemini_catch_def or_else_def no_image_returned_msg_def)

text \<open>
  C2 fails on the code. When the SDK promise rejects with \<^verbatim>\<open>undefined\<close> or
  \<^verbatim>\<open>null\<close>, the unguarded read of \<^verbatim>\<open>error.message\<close> raises a TypeError inside
  the catch clause and the promise of \<open>editImageWithGemini\<close> rejects, where the claim
  says it never rejects. When the first candidate has no content, the error string is the
  message of the TypeError raised by the unguarded read of \<^verbatim>\<open>content.parts\<close>, the
  text of the JavaScript engine, where the claim says a message for the user.
\<close>

theorem editImageWithGemini_rejects_on_nullish:
  "snd (editImageWithGemini (sdk_throws Thrown_undefined) [png_upload] ''make it blue'') =
     Inl (js_Error ''Cannot read properties of undefined (reading 'message')'') \<and>
   snd (editImageWithGemini (sdk_throws Thrown_null) [png_upload] ''make it blue'') =
     Inl (js_Error ''Cannot read properties of null (reading 'message')'') \<and>
   snd (editImageWithGemini (sdk_returns \<lparr>candidates = Some [\<lparr>content = None\<rparr>]\<rparr>)
          [png_upload] ''make it blue'') =
     Inr \<lparr>success = False, response_image = None,
          response_error = Some ''Cannot read properties of undefined (reading 'parts')''\<rparr>"
  by (simp add: editImageWithGemini_def editImageWithGemini_try_def Let_def sdk_throws_def
        sdk_returns_def png_upload_def parse_response_def TypeError_reading_parts_def
        TypeError_message_of_undefined_def TypeError_message_of_null_def js_Error_def
        editImageWithGemini_catch_def or_else_def)

text \<open>
  C3. For every non-empty list of images and every prompt, the request that
  \<open>editImageWithGemini\<close> submits consists of one text part carrying the instruction,
  followed by one inline image part per image, in order, each with that image's content
  type; and a generate action that passes the submission check and reads all its files
  submits exactly this request for the uploaded images, in upload order.
\<close>

theorem request_parts_in_upload_order:
  "(imageData \<noteq> [] \<longrightarrow>
      fst (editImageWithGemini generate imageData instruction) =
        [\<lparr>model = ''gemini-2.5-flash-image'',
          contents_parts =
            TextPart instruction
              # map (\<lambda>img. InlineDataPart (mimeType img) (clean_base64 (base64Data img)))
                  imageData\<rparr>]) \<and>
   (\<not> blocked s \<and> (\<forall>img\<in>set (uploadedImages s). file_readable (img_file img)) \<longrightarrow>
      snd (handleGenerate generate s) =
        [\<lparr>model = ''gemini-2.5-flash-image'',
          contents_parts =
            TextPart (prompt s)
              # map (\<lambda>img. InlineDataPart (img_mimeType img) (clean_base64 (data_uri (img_file img))))
                  (uploadedImages s)\<rparr>])"
proof (intro conjI impI)
  assume "imageData \<noteq> []"
  then show "fst (editImageWithGemini generate imageData instruction) =
        [\<lparr>model = ''gemini-2.5-flash-image'',
          contents_parts =
            TextPart instruction
              # map (\<lambda>img. InlineDataPart (mimeType img) (clean_base64 (base64Data img)))
                  imageData\<rparr>]"
    by (simp add: editImageWithGemini_submitted request_of_def allContentsParts_def imageParts_def)
next
  let ?imageData = "map (\<lambda>img. \<lparr>base64Data = data_uri (img_file img), mimeType = img_mimeType img\<rparr>)
      (uploadedImages s)"
  assume a: "\<not> blocked s \<and> (\<forall>img\<in>set (uploadedImages s). file_readable (img_file img))"
  then have nb: "\<not> blocked s" and rd: "read_images (uploadedImages s) = Inr ?imageData"
    by (simp_all add: read_images_readable)
  from nb have "uploadedImages s \<noteq> []" by (simp add: blocked_iff)
  then have ne: "?imageData \<noteq> []" by simp
  have "snd (handleGenerate generate s) = fst (editImageWithGemini generate ?imageData (prompt s))"
    using nb rd by (simp add: handleGenerate_started)
  also have "\<dots> = [request_of ?imageData (prompt s)]"
    using ne by (rule editImageWithGemini_submitted)
  finally show "snd (handleGenerate generate s) =
        [\<lparr>model = ''gemini-2.5-flash-image'',
          contents_parts =
            TextPart (prompt s)
              # map (\<lambda>img. InlineDataPart (img_mimeType img) (clean_base64 (data_uri (img_file img))))
                  (uploadedImages s)\<rparr>]"
    by (simp add: request_of_def allContentsParts_def imageParts_def comp_def)
qed

text \<open>One image with an empty prompt at the service, and three uploaded images.\<close>

theorem request_parts_in_upload_order_witness:
  "fst (editImageWithGemini (sdk_throws (js_Error ''fetch failed'')) [png_upload] []) =
     [\<lparr>model = ''gemini-2.5-flash-image'',
       contents_parts = [TextPart [], InlineDataPart ''image/png'' ''iVBORw0KGgo='']\<rparr>] \<and>
   snd (handleGenerate (sdk_throws (js_Error ''fetch failed''))
          (state_with [png_image, gif_image, png_image] ''make it blue'')) =
     [\<lparr>model = ''gemini-2.5-flash-image'',
       contents_parts =
         [TextPart ''make it blue'',
          InlineDataPart ''image/png'' (clean_base64 (data_uri png_file)),
          InlineDataPart ''image/gif'' (clean_base64 (data_uri gif_file)),
          InlineDataPart ''image/png'' (clean_base64 (data_uri png_file))]\<rparr>]"
proof -
  have nb: "\<not> blocked (state_with [png_image, gif_image, png_image] ''make it blue'')"
    by (simp add: blocked_iff state_with_def is_js_whitespace_def)
  have rd: "\<forall>img\<in>set (uploadedImages (state_with [png_image, gif_image, png_image] ''make it blue'')).
      file_readable (img_file img)"
    by (simp add: editor_sample_defs)
  have 1: "fst (editImageWithGemini (sdk_throws (js_Error ''fetch failed'')) [png_upload] []) =
     [\<lparr>model = ''gemini-2.5-flash-image'',
       contents_parts = [TextPart [], InlineDataPart ''image/png'' ''iVBORw0KGgo='']\<rparr>]"
    using request_parts_in_upload_order
      [where imageData = "[png_upload]" and instruction = "[]"
         and generate = "sdk_throws (js_Error ''fetch failed'')"]
    by (simp add: png_upload_def clean_base64_def data_uri_prefixes_def startsWith_def)
  have 2: "snd (handleGenerate (sdk_throws (js_Error ''fetch failed''))
          (state_with [png_image, gif_image, png_image] ''make it blue'')) =
     [\<lparr>model = ''gemini-2.5-flash-image'',
       contents_parts =
         [TextPart ''make it blue'',
          InlineDataPart ''image/png'' (clean_base64 (data_uri png_file)),
          InlineDataPart ''image/gif'' (clean_base64 (data_uri gif_file)),
          InlineDataPart ''image/png'' (clean_base64 (data_uri png_file))]\<rparr>]"
    using nb rd request_parts_in_upload_order
      [where s = "state_with [png_image, gif_image, png_image] ''make it blue''"
         and generate = "sdk_throws (js_Error ''fetch failed'')"]
    by (simp add: state_with_def png_image_def gif_image_def)
  from 1 2 show ?thesis ..
qed

text \<open>
  C4 fails on the code for an accepted file whose type is not PNG, JPEG, JPG or WebP.
  A GIF passes the upload filter, and the inline part sent for it carries the whole data
  URI, prefix included, in its data field, not the base64 payload of the file.
\<close>

theorem gif_upload_sent_with_prefix:
  "is_image_file gif_file \<and>
   uploadedImages (processFiles sample_browser [gif_file] initial_state) = [gif_image] \<and>
   snd (handleGenerate (sdk_throws (js_Error ''fetch failed''))
          (processFiles sample_browser [gif_file] initial_state)) =
     [\<lparr>model = ''gemini-2.5-flash-image'',
       contents_parts =
         [TextPart ''Remove from this image those green markers'',
          InlineDataPart ''image/gif'' ''data:image/gif;base64,R0lGODlhAQABAAAAACw='']\<rparr>] \<and>
   file_base64 gif_file = ''R0lGODlhAQABAAAAACw=''"
proof -
  have img: "is_image_file gif_file"
    by (simp add: is_image_file_def startsWith_def gif_file_def)
  have up: "processFiles sample_browser [gif_file] initial_state =
      state_with [gif_image] ''Remove from this image those green markers''"
    using img
    by (simp add: processFiles_def initial_state_def state_with_def new_image_def gif_image_def
          sample_browser_def gif_file_def)
  have nb: "\<not> blocked (state_with [gif_image] ''Remove from this image those green markers'')"
    by (simp add: blocked_iff state_with_def is_js_whitespace_def)
  have rd: "read_images [gif_image] =
      Inr [\<lparr>base64Data = ''data:image/gif;base64,R0lGODlhAQABAAAAACw='', mimeType = ''image/gif''\<rparr>]"
    by (simp add: read_images_def convertBlobToBase64_def readAsDataURL_def data_uri_def
          gif_image_def gif_file_def)
  have cl: "clean_base64 ''data:image/gif;base64,R0lGODlhAQABAAAAACw='' =
      ''data:image/gif;base64,R0lGODlhAQABAAAAACw=''"
    by (simp add: clean_base64_def data_uri_prefixes_def startsWith_def)
  have "snd (handleGenerate (sdk_throws (js_Error ''fetch failed''))
          (state_with [gif_image] ''Remove from this image those green markers'')) =
     [\<lparr>model = ''gemini-2.5-flash-image'',
       contents_parts =
         [TextPart ''Remove from this image those green markers'',
          InlineDataPart ''image/gif'' ''data:image/gif;base64,R0lGODlhAQABAAAAACw='']\<rparr>]"
    using nb rd cl
    by (simp add: handleGenerate_def Let_def state_with_def editImageWithGemini_def
          editImageWithGemini_try_def request_of_def allContentsParts_def imageParts_def
          sdk_throws_def)
  with img up show ?thesis
    by (simp add: state_with_def gif_file_def)
qed

text \<open>
  C5. If the uploaded-image list is empty or the prompt is blank (empty or white space
  only), \<open>handleGenerate\<close> sets the error message
  \<^verbatim>\<open>Please upload at least one image and provide a prompt.\<close> and returns without
  invoking the external call.
\<close>

theorem handleGenerate_blocks_missing_input:
  "uploadedImages s = [] \<or> (\<forall>c\<in>set (prompt s). is_js_whitespace c) \<Longrightarrow>
     handleGenerate generate s =
       ([s\<lparr>errorMessage := ''Please upload at least one image and provide a prompt.''\<rparr>], [])"
  by (simp add: handleGenerate_blocked blocked_iff missing_input_msg_def)

text \<open>No image in the initial state, and an image with a prompt of white space.\<close>

theorem handleGenerate_blocks_missing_input_witness:
  "handleGenerate (sdk_returns (response_with_parts [jpeg_part])) initial_state =
     ([initial_state\<lparr>errorMessage := ''Please upload at least one image and provide a prompt.''\<rparr>],
      []) \<and>
   handleGenerate (sdk_returns (response_with_parts [jpeg_part]))
       (state_with [png_image] [CHR '' '', CHR 0x09, CHR 0x0A]) =
     ([state_with [png_image] [CHR '' '', CHR 0x09, CHR 0x0A]
         \<lparr>errorMessage := ''Please upload at least one image and provide a prompt.''\<rparr>], [])"
proof -
  have a: "uploadedImages initial_state = [] \<or>
      (\<forall>c\<in>set (prompt initial_state). is_js_whitespace c)"
    by (simp add: initial_state_def)
  have b: "uploadedImages (state_with [png_image] [CHR '' '', CHR 0x09, CHR 0x0A]) = [] \<or>
      (\<forall>c\<in>set (prompt (state_with [png_image] [CHR '' '', CHR 0x09, CHR 0x0A])).
         is_js_whitespace c)"
    by (simp add: state_with_def is_js_whitespace_def)
  from handleGenerate_blocks_missing_input [OF a] handleGenerate_blocks_missing_input [OF b]
  show ?thesis by simp
qed

text \<open>
  C6. For every file list processed by upload, the files whose type starts with
  \<^verbatim>\<open>image/\<close> are appended to the existing uploaded-image list in input order, each
  with its own content type; every other file is skipped, and the error message is the
  skip messages of the skipped files, one each, joined by spaces.
\<close>

theorem processFiles_skips_non_images:
  "\<exists>added.
     uploadedImages (processFiles browser selectedFiles s) = uploadedImages s @ added \<and>
     map img_file added = filter is_image_file selectedFiles \<and>
     map img_mimeType added = map file_type (filter is_image_file selectedFiles) \<and>
     errorMessage (processFiles browser selectedFiles s) =
       join_with_space (map skip_message (filter (\<lambda>f. \<not> is_image_file f) selectedFiles))"
proof -
  obtain added where
    "fst (processFiles_loop browser 0 selectedFiles [] []) = [] @ added"
    and "map img_file added = filter is_image_file selectedFiles"
    and "map img_mimeType added = map file_type (filter is_image_file selectedFiles)"
    using processFiles_loop_images [of browser 0 selectedFiles "[]" "[]"] by blast
  moreover have "snd (processFiles_loop browser 0 selectedFiles [] []) =
      join_with_space (map skip_message (filter (\<lambda>f. \<not> is_image_file f) selectedFiles))"
    by (simp add: processFiles_loop_err foldl_add_skip_message)
  ultimately show ?thesis
    by (intro exI [of _ added]) (auto simp: processFiles_def split: prod.splits)
qed

text \<open>Two images and two other files, uploaded after one image.\<close>

theorem processFiles_skips_non_images_witness:
  "map img_file
     (uploadedImages
        (processFiles sample_browser [text_file, png_file, pdf_file, gif_file]
           (state_with [png_image] ''make it blue''))) =
     [png_file, png_file, gif_file] \<and>
   errorMessage
     (processFiles sample_browser [text_file, png_file, pdf_file, gif_file]
        (state_with [png_image] ''make it blue'')) =
     ''File '' @ [CHR 0x22] @ ''notes.txt'' @ [CHR 0x22] @ '' is not a valid image. Skipping. ''
       @ ''File '' @ [CHR 0x22] @ ''doc.pdf'' @ [CHR 0x22] @ '' is not a valid image. Skipping.''"
proof -
  have f: "filter is_image_file [text_file, png_file, pdf_file, gif_file] = [png_file, gif_file]"
    by (simp add: is_image_file_def startsWith_def editor_sample_defs)
  have g: "filter (\<lambda>f. \<not> is_image_file f) [text_file, png_file, pdf_file, gif_file] =
      [text_file, pdf_file]"
    by (simp add: is_image_file_def startsWith_def editor_sample_defs)
  from processFiles_skips_non_images
    [of sample_browser "[text_file, png_file, pdf_file, gif_file]"
        "state_with [png_image] ''make it blue''"]
  obtain added where
    "uploadedImages (processFiles sample_browser [text_file, png_file, pdf_file, gif_file]
        (state_with [png_image] ''make it blue'')) =
       uploadedImages (state_with [png_image] ''make it blue'') @ added"
    and "map img_file added = filter is_image_file [text_file, png_file, pdf_file, gif_file]"
    and "errorMessage (processFiles sample_browser [text_file, png_file, pdf_file, gif_file]
        (state_with [png_image] ''make it blue'')) =
       join_with_space (map skip_message
         (filter (\<lambda>f. \<not> is_image_file f) [text_file, png_file, pdf_file, gif_file]))"
    by blast
  then show ?thesis
    unfolding f g
    by (simp add: state_with_def png_image_def skip_message_def text_file_def pdf_file_def)
qed

text \<open>
  C7. The UI status ranges over exactly the four values IDLE, PROCESSING, SUCCESS and
  ERROR; a generate action that passes the submission check moves it to PROCESSING and
  then to SUCCESS exactly when the call completes with a service response that has
  success true with an image present, and to ERROR otherwise (also when a file cannot be
  read, so that the call is not made, and when the promise of the service rejects).
\<close>

theorem appState_of_generate:
  "(UNIV :: AppState set) = {IDLE, PROCESSING, SUCCESS, ERROR} \<and>
   distinct [IDLE, PROCESSING, SUCCESS, ERROR] \<and>
   (\<not> blocked s \<longrightarrow>
      map appState (fst (handleGenerate generate s)) =
        [PROCESSING,
         case read_images (uploadedImages s) of
           Inl e \<Rightarrow> ERROR
         | Inr imageData \<Rightarrow>
             (case snd (editImageWithGemini generate imageData (prompt s)) of
                Inl e \<Rightarrow> ERROR
              | Inr response \<Rightarrow>
                  if success response \<and> response_image response \<noteq> None then SUCCESS
                  else ERROR)])"
proof (intro conjI impI)
  show "(UNIV :: AppState set) = {IDLE, PROCESSING, SUCCESS, ERROR}"
  proof
    show "(UNIV :: AppState set) \<subseteq> {IDLE, PROCESSING, SUCCESS, ERROR}"
    proof
      fix a :: AppState
      show "a \<in> {IDLE, PROCESSING, SUCCESS, ERROR}" by (cases a) simp_all
    qed
  qed simp
  show "distinct [IDLE, PROCESSING, SUCCESS, ERROR]" by simp
next
  assume nb: "\<not> blocked s"
  show "map appState (fst (handleGenerate generate s)) =
        [PROCESSING,
         case read_images (uploadedImages s) of
           Inl e \<Rightarrow> ERROR
         | Inr imageData \<Rightarrow>
             (case snd (editImageWithGemini generate imageData (prompt s)) of
                Inl e \<Rightarrow> ERROR
              | Inr response \<Rightarrow>
                  if success response \<and> response_image response \<noteq> None then SUCCESS
                  else ERROR)]"
  proof (cases "read_images (uploadedImages s)")
    case (Inl e)
    with nb show ?thesis by (simp add: handleGenerate_unreadable)
  next
    case rd: (Inr imageData)
    show ?thesis
    proof (cases "snd (editImageWithGemini generate imageData (prompt s))")
      case (Inl e)
      with nb rd show ?thesis by (simp add: handleGenerate_started appState_settle)
    next
      case (Inr response)
      then have "well_formed response" by (rule editImageWithGemini_well_formed)
      then have "truthy (response_image response) = (response_image response \<noteq> None)"
        by (auto simp: well_formed_def truthy_def split: if_splits option.splits)
      with nb rd Inr show ?thesis by (simp add: handleGenerate_started appState_settle)
    qed
  qed
qed

text \<open>A response with an image, a refusal, and a file that cannot be read.\<close>

theorem appState_of_generate_witness:
  "map appState
     (fst (handleGenerate (sdk_returns (response_with_parts [jpeg_part]))
             (state_with [png_image] ''make it blue''))) = [PROCESSING, SUCCESS] \<and>
   map appState
     (fst (handleGenerate (sdk_returns (response_with_parts [refusal_part]))
             (state_with [png_image] ''make it blue''))) = [PROCESSING, ERROR] \<and>
   map appState
     (fst (handleGenerate (sdk_returns (response_with_parts [jpeg_part]))
             (state_with [png_image, unreadable_image] ''make it blue''))) = [PROCESSING, ERROR]"
proof -
  let ?s = "state_with [png_image] ''make it blue''"
  let ?u = "state_with [png_image, unreadable_image] ''make it blue''"
  let ?imageData = "[\<lparr>base64Data = data_uri png_file, mimeType = ''image/png''\<rparr>]"
  have rd: "read_images (uploadedImages ?s) = Inr ?imageData"
    by (simp add: read_images_def convertBlobToBase64_def readAsDataURL_def state_with_def
          png_image_def png_file_def)
  have ur: "read_images (uploadedImages ?u) = Inl (Thrown_value None)"
    by (simp add: read_images_def convertBlobToBase64_def readAsDataURL_def state_with_def
          png_image_def png_file_def unreadable_image_def)
  have nb: "\<not> blocked ?u"
    by (simp add: blocked_iff state_with_def is_js_whitespace_def)
  have ok: "snd (editImageWithGemini (sdk_returns (response_with_parts [jpeg_part])) ?imageData
        (prompt ?s)) =
      Inr \<lparr>success = True, response_image = Some ''data:image/jpeg;base64,QUJD'',
           response_error = None\<rparr>"
    by (simp add: editImageWithGemini_def editImageWithGemini_try_def Let_def parse_response_def
          sample_defs)
  have ko: "snd (editImageWithGemini (sdk_returns (response_with_parts [refusal_part])) ?imageData
        (prompt ?s)) =
      Inr \<lparr>success = False, response_image = None,
           response_error = Some ''I cannot edit this image.''\<rparr>"
    by (simp add: editImageWithGemini_def editImageWithGemini_try_def Let_def parse_response_def
          textPart_text_def textPart_def sample_defs)
  have 1: "map appState
     (fst (handleGenerate (sdk_returns (response_with_parts [jpeg_part])) ?s)) =
       [PROCESSING, SUCCESS]"
    using not_blocked_sample rd ok
      appState_of_generate [of ?s "sdk_returns (response_with_parts [jpeg_part])"]
    by simp
  have 2: "map appState
     (fst (handleGenerate (sdk_returns (response_with_parts [refusal_part])) ?s)) =
       [PROCESSING, ERROR]"
    using not_blocked_sample rd ko
      appState_of_generate [of ?s "sdk_returns (response_with_parts [refusal_part])"]
    by simp
  have 3: "map appState
     (fst (handleGenerate (sdk_returns (response_with_parts [jpeg_part])) ?u)) =
       [PROCESSING, ERROR]"
    using nb ur appState_of_generate [of ?u "sdk_returns (response_with_parts [jpeg_part])"]
    by simp
  from 1 2 3 show ?thesis by blast
qed

text \<open>
  C8. Every EditResponse returned by \<open>editImageWithGemini\<close>: if success is true the
  image is defined and the error is absent; if success is false the error is defined and
  the image is absent; success is true exactly when an image is returned. A response is
  returned whenever no image data is given or the SDK promise does not reject with
  \<^verbatim>\<open>undefined\<close> or \<^verbatim>\<open>null\<close>.
\<close>

theorem editImageWithGemini_response_invariant:
  "(snd (editImageWithGemini generate imageData instruction) = Inr r \<longrightarrow>
      (success r \<longrightarrow> response_image r \<noteq> None \<and> response_error r = None) \<and>
      (\<not> success r \<longrightarrow> response_error r \<noteq> None \<and> response_image r = None) \<and>
      (success r \<longleftrightarrow> response_image r \<noteq> None)) \<and>
   (imageData = [] \<or> \<not> rejects_with_nullish (generate (request_of imageData instruction)) \<longrightarrow>
      (\<exists>r'. snd (editImageWithGemini generate imageData instruction) = Inr r'))"
proof -
  have "(success r \<longrightarrow> response_image r \<noteq> None \<and> response_error r = None) \<and>
      (\<not> success r \<longrightarrow> response_error r \<noteq> None \<and> response_image r = None) \<and>
      (success r \<longleftrightarrow> response_image r \<noteq> None)"
    if "snd (editImageWithGemini generate imageData instruction) = Inr r"
  proof -
    from that have "well_formed r" by (rule editImageWithGemini_well_formed)
    then show ?thesis
      by (auto simp: well_formed_def truthy_def split: if_splits option.splits)
  qed
  moreover have "\<exists>r'. snd (editImageWithGemini generate imageData instruction) = Inr r'"
    if "imageData = [] \<or> \<not> rejects_with_nullish (generate (request_of imageData instruction))"
    using that editImageWithGemini_resolves [of imageData generate instruction] by blast
  ultimately show ?thesis by blast
qed

text \<open>One successful and one failed response.\<close>

theorem editImageWithGemini_response_invariant_witness:
  "snd (editImageWithGemini (sdk_returns (response_with_parts [jpeg_part])) [png_upload]
          ''make it blue'') =
     Inr \<lparr>success = True, response_image = Some ''data:image/jpeg;base64,QUJD'',
          response_error = None\<rparr> \<and>
   snd (editImageWithGemini (sdk_returns (response_with_parts [refusal_part])) [png_upload]
          ''make it blue'') =
     Inr \<lparr>success = False, response_image = None,
          response_error = Some ''I cannot edit this image.''\<rparr> \<and>
   (\<exists>r'. snd (editImageWithGemini (sdk_throws (js_Error ''fetch failed'')) [png_upload]
             ''make it blue'') = Inr r')"
proof -
  let ?ok = "\<lparr>success = True, response_image = Some ''data:image/jpeg;base64,QUJD'',
          response_error = None\<rparr>"
  let ?ko = "\<lparr>success = False, response_image = None,
          response_error = Some ''I cannot edit this image.''\<rparr>"
  have 1: "snd (editImageWithGemini (sdk_returns (response_with_parts [jpeg_part])) [png_upload]
          ''make it blue'') = Inr ?ok"
    using editImageWithGemini_response_invariant
      [of "sdk_returns (response_with_parts [jpeg_part])" "[png_upload]" "''make it blue''" ?ok]
    by (simp add: editImageWithGemini_def editImageWithGemini_try_def Let_def parse_response_def
          sample_defs)
  have 2: "snd (editImageWithGemini (sdk_returns (response_with_parts [refusal_part])) [png_upload]
          ''make it blue'') = Inr ?ko"
    using editImageWithGemini_response_invariant
      [of "sdk_returns (response_with_parts [refusal_part])" "[png_upload]" "''make it blue''" ?ko]
    by (simp add: editImageWithGemini_def editImageWithGemini_try_def Let_def parse_response_def
          textPart_text_def textPart_def sample_defs)
  have nn: "\<not> rejects_with_nullish
      (sdk_throws (js_Error ''fetch failed'') (request_of [png_upload] ''make it blue''))"
    by (simp add: rejects_with_nullish_def sdk_throws_def js_Error_def)
  have 3: "\<exists>r'. snd (editImageWithGemini (sdk_throws (js_Error ''fetch failed'')) [png_upload]
             ''make it blue'') = Inr r'"
    using nn editImageWithGemini_response_invariant
      [of "sdk_throws (js_Error ''fetch failed'')" "[png_upload]" "''make it blue''"]
    by blast
  from 1 2 3 show ?thesis by blast
qed

text \<open>
  C9. When the inline image part found in the response lacks a \<^verbatim>\<open>mimeType\<close>
  (undefined or empty), the image returned is a data URI with content type
  \<^verbatim>\<open>image/png\<close>; otherwise the data URI uses the part's \<^verbatim>\<open>mimeType\<close>.
\<close>

theorem editImageWithGemini_mime_default:
  assumes "imageData \<noteq> []"
    and "generate (request_of imageData instruction) = Inr response"
    and "candidates response = Some (candidate # others)"
    and "content candidate = Some c"
    and "parts c = Some ps"
    and "find carries_image ps = Some p"
    and "inlineData p = Some blob"
    and "blob_data blob = Some d"
  shows "(blob_mimeType blob = None \<or> blob_mimeType blob = Some [] \<longrightarrow>
            snd (editImageWithGemini generate imageData instruction) =
              Inr \<lparr>success = True, response_image = Some (''data:image/png;base64,'' @ d),
                   response_error = None\<rparr>) \<and>
         (blob_mimeType blob = Some m \<and> m \<noteq> [] \<longrightarrow>
            snd (editImageWithGemini generate imageData instruction) =
              Inr \<lparr>success = True, response_image = Some (''data:'' @ m @ '';base64,'' @ d),
                   response_error = None\<rparr>)"
proof -
  have "snd (editImageWithGemini generate imageData instruction) =
      Inr \<lparr>success = True, response_image = Some (data_uri_of blob d), response_error = None\<rparr>"
    using assms
    by (simp add: editImageWithGemini_returned parse_response_parts find_carries_image_blob)
  then show ?thesis
    by (auto simp: data_uri_of_def or_else_def)
qed

text \<open>A part without a content type, and a JPEG part.\<close>

theorem editImageWithGemini_mime_default_witness:
  "snd (editImageWithGemini (sdk_returns (response_with_parts [untyped_part])) [png_upload]
          ''make it blue'') =
     Inr \<lparr>success = True, response_image = Some ''data:image/png;base64,QUJD'',
          response_error = None\<rparr> \<and>
   snd (editImageWithGemini (sdk_returns (response_with_parts [jpeg_part])) [png_upload]
          ''make it blue'') =
     Inr \<lparr>success = True, response_image = Some ''data:image/jpeg;base64,QUJD'',
          response_error = None\<rparr>"
proof -
  have 1: "snd (editImageWithGemini (sdk_returns (response_with_parts [untyped_part])) [png_upload]
          ''make it blue'') =
     Inr \<lparr>success = True, response_image = Some ''data:image/png;base64,QUJD'',
          response_error = None\<rparr>"
    using editImageWithGemini_mime_default
      [where imageData = "[png_upload]" and instruction = "''make it blue''"
         and generate = "sdk_returns (response_with_parts [untyped_part])"
         and response = "response_with_parts [untyped_part]"
         and candidate = "\<lparr>content = Some \<lparr>parts = Some [untyped_part]\<rparr>\<rparr>"
         and others = "[]" and c = "\<lparr>parts = Some [untyped_part]\<rparr>"
         and ps = "[untyped_part]" and p = untyped_part
         and blob = "\<lparr>blob_data = Some ''QUJD'', blob_mimeType = None\<rparr>" and d = "''QUJD''"]
    by (simp add: sample_defs)
  have 2: "snd (editImageWithGemini (sdk_returns (response_with_parts [jpeg_part])) [png_upload]
          ''make it blue'') =
     Inr \<lparr>success = True, response_image = Some ''data:image/jpeg;base64,QUJD'',
          response_error = None\<rparr>"
    using editImageWithGemini_mime_default
      [where imageData = "[png_upload]" and instruction = "''make it blue''"
         and generate = "sdk_returns (response_with_parts [jpeg_part])"
         and response = "response_with_parts [jpeg_part]"
         and candidate = "\<lparr>content = Some \<lparr>parts = Some [jpeg_part]\<rparr>\<rparr>"
         and others = "[]" and c = "\<lparr>parts = Some [jpeg_part]\<rparr>"
         and ps = "[jpeg_part]" and p = jpeg_part
         and blob = "\<lparr>blob_data = Some ''QUJD'', blob_mimeType = Some ''image/jpeg''\<rparr>"
         and d = "''QUJD''" and m = "''image/jpeg''"]
    by (simp add: sample_defs)
  from 1 2 show ?thesis ..
qed

text \<open>
  C10. When a generate action is blocked by the submission check, only the error message
  changes: the UI status, the uploaded-image list, the result URL and the prompt are
  left unchanged.
\<close>

theorem blocked_generate_changes_only_error:
  "uploadedImages s = [] \<or> (\<forall>c\<in>set (prompt s). is_js_whitespace c) \<Longrightarrow>
     (\<exists>m. fst (handleGenerate generate s) = [s\<lparr>errorMessage := m\<rparr>]) \<and>
     map appState (fst (handleGenerate generate s)) = [appState s] \<and>
     map uploadedImages (fst (handleGenerate generate s)) = [uploadedImages s] \<and>
     map resultUrl (fst (handleGenerate generate s)) = [resultUrl s] \<and>
     map prompt (fst (handleGenerate generate s)) = [prompt s]"
  by (auto simp: handleGenerate_blocked blocked_iff)

text \<open>A blank prompt after a successful generation.\<close>

theorem blocked_generate_changes_only_error_witness:
  "map appState
     (fst (handleGenerate (sdk_returns (response_with_parts [jpeg_part]))
        \<lparr>uploadedImages = [png_image], resultUrl = Some ''data:image/png;base64,QUJD'',
         prompt = ''  '', appState = SUCCESS, errorMessage = []\<rparr>)) = [SUCCESS] \<and>
   map resultUrl
     (fst (handleGenerate (sdk_returns (response_with_parts [jpeg_part]))
        \<lparr>uploadedImages = [png_image], resultUrl = Some ''data:image/png;base64,QUJD'',
         prompt = ''  '', appState = SUCCESS, errorMessage = []\<rparr>)) =
     [Some ''data:image/png;base64,QUJD'']"
proof -
  let ?s = "\<lparr>uploadedImages = [png_image], resultUrl = Some ''data:image/png;base64,QUJD'',
         prompt = ''  '', appState = SUCCESS, errorMessage = []\<rparr>"
  have a: "uploadedImages ?s = [] \<or> (\<forall>c\<in>set (prompt ?s). is_js_whitespace c)"
    by (simp add: is_js_whitespace_def)
  from blocked_generate_changes_only_error [OF a] show ?thesis by simp
qed

end
